theory Spec2Isabelle
  imports Main
begin

section \<open>Values of a table cell\<close>

text \<open>
  The program of \<^verbatim>\<open>process_referrals.py\<close> works on pandas data frames read from CSV
  files. A cell holds a missing value (\<open>NaN\<close>, \<open>NaT\<close>, or Python's \<open>None\<close> where
  \<^verbatim>\<open>row.get\<close> finds no column), a text, a number, or a timestamp. Numbers are modelled
  as integers. A timestamp is a count of seconds: a zone-naive one counts wall-clock
  seconds, a zone-aware one carries the UTC instant and its offset from UTC.
\<close>

datatype stamp = Naive int | Aware int int

datatype cell = PyNone | NaN | NaT | Str string | Num int | Stamp stamp

datatype error = TypeError | KeyError

type_synonym row = "(string \<times> cell) list"

fun isnull :: "cell \<Rightarrow> bool" where
  "isnull PyNone = True"
| "isnull NaN = True"
| "isnull NaT = True"
| "isnull _ = False"

definition notnull :: "cell \<Rightarrow> bool" where
  "notnull c = (\<not> isnull c)"

subsection \<open>ASCII case mapping: \<^verbatim>\<open>str.lower\<close>, \<^verbatim>\<open>str.upper\<close>, \<^verbatim>\<open>str.title\<close>\<close>

definition is_upper :: "char \<Rightarrow> bool" where
  "is_upper c = (65 \<le> (of_char c :: nat) \<and> (of_char c :: nat) \<le> 90)"

definition is_lower :: "char \<Rightarrow> bool" where
  "is_lower c = (97 \<le> (of_char c :: nat) \<and> (of_char c :: nat) \<le> 122)"

definition lower_char :: "char \<Rightarrow> char" where
  "lower_char c = (if is_upper c then char_of ((of_char c :: nat) + 32) else c)"

definition upper_char :: "char \<Rightarrow> char" where
  "upper_char c = (if is_lower c then char_of ((of_char c :: nat) - 32) else c)"

definition lower :: "string \<Rightarrow> string" where
  "lower s = map lower_char s"

definition upper :: "string \<Rightarrow> string" where
  "upper s = map upper_char s"

text \<open>
  \<^verbatim>\<open>str.title\<close>: a cased character is upper-cased when the character before it is not
  cased, and lower-cased otherwise. The flag says whether the previous character is cased.
\<close>

fun title_from :: "bool \<Rightarrow> string \<Rightarrow> string" where
  "title_from prev [] = []"
| "title_from prev (c # cs) =
     (if is_lower c \<or> is_upper c
      then (if prev then lower_char c else upper_char c) # title_from True cs
      else c # title_from False cs)"

definition title :: "string \<Rightarrow> string" where
  "title s = title_from False s"

subsection \<open>\<^verbatim>\<open>str(value)\<close>\<close>

definition digit_char :: "nat \<Rightarrow> char" where
  "digit_char n = char_of (48 + n)"

fun digits :: "nat \<Rightarrow> string" where
  "digits n = (if n < 10 then [digit_char n] else digits (n div 10) @ [digit_char (n mod 10)])"

declare digits.simps [simp del]

definition show_int :: "int \<Rightarrow> string" where
  "show_int i = (if i < 0 then CHR ''-'' # digits (nat (- i)) else digits (nat i))"

definition pad :: "nat \<Rightarrow> nat \<Rightarrow> string" where
  "pad w n = replicate (w - length (digits n)) CHR ''0'' @ digits n"

text \<open>Days since 1970-01-01 of a civil date, and back (proleptic Gregorian calendar).\<close>

definition days_from_civil :: "int \<Rightarrow> int \<Rightarrow> int \<Rightarrow> int" where
  "days_from_civil y m d =
     (let y' = (if m \<le> 2 then y - 1 else y);
          era = y' div 400;
          yoe = y' - era * 400;
          doy = (153 * (if m > 2 then m - 3 else m + 9) + 2) div 5 + d - 1;
          doe = yoe * 365 + yoe div 4 - yoe div 100 + doy
      in era * 146097 + doe - 719468)"

definition civil_from_days :: "int \<Rightarrow> int \<times> int \<times> int" where
  "civil_from_days z =
     (let z' = z + 719468;
          era = z' div 146097;
          doe = z' - era * 146097;
          yoe = (doe - doe div 1460 + doe div 36524 - doe div 146096) div 365;
          doy = doe - (365 * yoe + yoe div 4 - yoe div 100);
          mp = (5 * doy + 2) div 153;
          d = doy - (153 * mp + 2) div 5 + 1;
          m = (if mp < 10 then mp + 3 else mp - 9);
          y = yoe + era * 400
      in (if m \<le> 2 then y + 1 else y, m, d))"

definition seconds :: "int \<Rightarrow> int \<Rightarrow> int \<Rightarrow> int \<Rightarrow> int \<Rightarrow> int \<Rightarrow> int" where
  "seconds y m d hh mm ss = days_from_civil y m d * 86400 + hh * 3600 + mm * 60 + ss"

definition show_wall :: "int \<Rightarrow> string" where
  "show_wall w =
     (case civil_from_days (w div 86400) of (y, m, d) \<Rightarrow>
        (let r = w mod 86400
         in show_int y @ ''-'' @ pad 2 (nat m) @ ''-'' @ pad 2 (nat d) @ '' '' @
            pad 2 (nat (r div 3600)) @ '':'' @ pad 2 (nat (r mod 3600 div 60)) @ '':'' @
            pad 2 (nat (r mod 60))))"

definition show_offset :: "int \<Rightarrow> string" where
  "show_offset off =
     (if off < 0 then ''-'' else ''+'') @
     pad 2 (nat (\<bar>off\<bar> div 3600)) @ '':'' @ pad 2 (nat (\<bar>off\<bar> mod 3600 div 60))"

fun show_stamp :: "stamp \<Rightarrow> string" where
  "show_stamp (Naive w) = show_wall w"
| "show_stamp (Aware t off) = show_wall (t + off) @ show_offset off"

fun py_str :: "cell \<Rightarrow> string" where
  "py_str PyNone = ''None''"
| "py_str NaN = ''nan''"
| "py_str NaT = ''NaT''"
| "py_str (Str s) = s"
| "py_str (Num n) = show_int n"
| "py_str (Stamp t) = show_stamp t"

text \<open>Characters that no case mapping changes: the sign, the digits and the colon.\<close>

definition caseless :: "char \<Rightarrow> bool" where
  "caseless c = (c \<in> set ''-0123456789:'')"

section \<open>The validator: \<^verbatim>\<open>check_valid\<close>\<close>

definition row_get :: "row \<Rightarrow> string \<Rightarrow> cell" where
  "row_get r k = (case map_of r k of None \<Rightarrow> PyNone | Some v \<Rightarrow> v)"

definition row_get_default :: "row \<Rightarrow> string \<Rightarrow> cell \<Rightarrow> cell" where
  "row_get_default r k d = (case map_of r k of None \<Rightarrow> d | Some v \<Rightarrow> v)"

text \<open>\<^verbatim>\<open>reward_val > 0\<close>: only a number compares with \<open>0\<close>; \<open>nan > 0\<close> is false.\<close>

fun gt_zero :: "cell \<Rightarrow> error + bool" where
  "gt_zero (Num n) = Inr (0 < n)"
| "gt_zero NaN = Inr False"
| "gt_zero _ = Inl TypeError"

text \<open>
  \<^verbatim>\<open>tx_time >= ref_time\<close> on two pandas timestamps: two naive ones compare by wall clock,
  two aware ones by instant, and a naive one against an aware one raises \<^verbatim>\<open>TypeError\<close>.
\<close>

fun stamp_ge :: "stamp \<Rightarrow> stamp \<Rightarrow> error + bool" where
  "stamp_ge (Naive a) (Naive b) = Inr (b \<le> a)"
| "stamp_ge (Aware a _) (Aware b _) = Inr (b \<le> a)"
| "stamp_ge _ _ = Inl TypeError"

text \<open>
  The condition of the first \<^verbatim>\<open>if\<close> (``Valid 1''), with Python's left-to-right
  short-circuit \<^verbatim>\<open>and\<close>. The parameter \<open>to_datetime\<close> stands for
  \<^verbatim>\<open>pd.to_datetime(\<cdot>, errors='coerce')\<close>; \<open>None\<close> is \<open>NaT\<close>.
\<close>

definition valid1 :: "(cell \<Rightarrow> stamp option) \<Rightarrow> row \<Rightarrow> error + bool" where
  "valid1 to_datetime r =
     (let reward_val = row_get r ''reward_value'';
          status = lower (py_str (row_get_default r ''description'' (Str '''')));
          tx_status = upper (py_str (row_get_default r ''transaction_status'' (Str '''')));
          tx_type = upper (py_str (row_get_default r ''transaction_type'' (Str '''')));
          tx_id = row_get r ''transaction_id'';
          ref_time = to_datetime (row_get r ''referral_at'');
          tx_time = to_datetime (row_get r ''transaction_at'');
          reward_granted = notnull (row_get r ''reward_granted_at'')
      in if \<not> notnull reward_val then Inr False
         else case gt_zero reward_val of
           Inl e \<Rightarrow> Inl e
         | Inr pos \<Rightarrow>
             if \<not> pos then Inr False
             else if status \<noteq> ''berhasil'' then Inr False
             else if \<not> notnull tx_id then Inr False
             else if tx_status \<noteq> ''PAID'' then Inr False
             else if tx_type \<noteq> ''NEW'' then Inr False
             else (case tx_time of
                 None \<Rightarrow> Inr False
               | Some t \<Rightarrow>
                   (case ref_time of
                      None \<Rightarrow> Inr False
                    | Some rt \<Rightarrow>
                        (case stamp_ge t rt of
                           Inl e \<Rightarrow> Inl e
                         | Inr ge \<Rightarrow> Inr (ge \<and> reward_granted)))))"

text \<open>The condition of the second \<^verbatim>\<open>if\<close> (``Valid 2'').\<close>

definition valid2 :: "row \<Rightarrow> bool" where
  "valid2 r =
     (let reward_val = row_get r ''reward_value'';
          status = lower (py_str (row_get_default r ''description'' (Str '''')))
      in status \<in> set [''menunggu'', ''tidak berhasil''] \<and> isnull reward_val)"

definition check_valid :: "(cell \<Rightarrow> stamp option) \<Rightarrow> row \<Rightarrow> error + bool" where
  "check_valid to_datetime r =
     (case valid1 to_datetime r of
        Inl e \<Rightarrow> Inl e
      | Inr a \<Rightarrow> if a then Inr True else if valid2 r then Inr True else Inr False)"

subsection \<open>The same validator with Rule B tried first\<close>

definition check_valid_B_first :: "(cell \<Rightarrow> stamp option) \<Rightarrow> row \<Rightarrow> error + bool" where
  "check_valid_B_first to_datetime r =
     (if valid2 r then Inr True
      else case valid1 to_datetime r of
             Inl e \<Rightarrow> Inl e
           | Inr a \<Rightarrow> if a then Inr True else Inr False)"

subsection \<open>The two rules as the specification words them\<close>

definition positive :: "cell \<Rightarrow> bool" where
  "positive c = (case c of Num n \<Rightarrow> 0 < n | _ \<Rightarrow> False)"

definition text_lower_is :: "cell \<Rightarrow> string \<Rightarrow> bool" where
  "text_lower_is c w = (case c of Str s \<Rightarrow> lower s = w | _ \<Rightarrow> False)"

definition text_upper_is :: "cell \<Rightarrow> string \<Rightarrow> bool" where
  "text_upper_is c w = (case c of Str s \<Rightarrow> upper s = w | _ \<Rightarrow> False)"

fun instant :: "stamp \<Rightarrow> int" where
  "instant (Naive w) = w"
| "instant (Aware t _) = t"

fun same_awareness :: "stamp \<Rightarrow> stamp \<Rightarrow> bool" where
  "same_awareness (Naive _) (Naive _) = True"
| "same_awareness (Aware _ _) (Aware _ _) = True"
| "same_awareness _ _ = False"

text \<open>
  Rule A as the specification states it: the two timestamps are compared as points in
  time, a timestamp without a zone being read as UTC.
\<close>

definition rule_A_stated :: "(cell \<Rightarrow> stamp option) \<Rightarrow> row \<Rightarrow> bool" where
  "rule_A_stated to_datetime r =
     (notnull (row_get r ''reward_value'') \<and> positive (row_get r ''reward_value'') \<and>
      text_lower_is (row_get r ''description'') ''berhasil'' \<and>
      notnull (row_get r ''transaction_id'') \<and>
      text_upper_is (row_get r ''transaction_status'') ''PAID'' \<and>
      text_upper_is (row_get r ''transaction_type'') ''NEW'' \<and>
      (case to_datetime (row_get r ''transaction_at'') of
         None \<Rightarrow> False
       | Some t \<Rightarrow>
           (case to_datetime (row_get r ''referral_at'') of
              None \<Rightarrow> False
            | Some rt \<Rightarrow> instant rt \<le> instant t)) \<and>
      notnull (row_get r ''reward_granted_at''))"

text \<open>Rule A with the added condition that the two timestamps are of one kind.\<close>

definition rule_A :: "(cell \<Rightarrow> stamp option) \<Rightarrow> row \<Rightarrow> bool" where
  "rule_A to_datetime r =
     (notnull (row_get r ''reward_value'') \<and> positive (row_get r ''reward_value'') \<and>
      text_lower_is (row_get r ''description'') ''berhasil'' \<and>
      notnull (row_get r ''transaction_id'') \<and>
      text_upper_is (row_get r ''transaction_status'') ''PAID'' \<and>
      text_upper_is (row_get r ''transaction_type'') ''NEW'' \<and>
      (case to_datetime (row_get r ''transaction_at'') of
         None \<Rightarrow> False
       | Some t \<Rightarrow>
           (case to_datetime (row_get r ''referral_at'') of
              None \<Rightarrow> False
            | Some rt \<Rightarrow> same_awareness t rt \<and> instant rt \<le> instant t)) \<and>
      notnull (row_get r ''reward_granted_at''))"

definition rule_B :: "row \<Rightarrow> bool" where
  "rule_B r =
     ((text_lower_is (row_get r ''description'') ''menunggu'' \<or>
       text_lower_is (row_get r ''description'') ''tidak berhasil'') \<and>
      isnull (row_get r ''reward_value''))"

subsection \<open>A timestamp parser for ISO 8601 texts\<close>

text \<open>
  An instance of the parsers of \<^verbatim>\<open>pandas\<close> and \<^verbatim>\<open>dateutil\<close> on the texts
  \<^verbatim>\<open>YYYY-MM-DD(T| )HH:MM[:SS][Z]\<close>, used for the concrete records below. A text with
  a final \<^verbatim>\<open>Z\<close> is zone-aware (UTC); one without is zone-naive.
\<close>

definition digit_val :: "char \<Rightarrow> int option" where
  "digit_val c =
     (let n = (of_char c :: nat) in if 48 \<le> n \<and> n \<le> 57 then Some (int n - 48) else None)"

fun number_from :: "int \<Rightarrow> string \<Rightarrow> int option" where
  "number_from acc [] = Some acc"
| "number_from acc (c # cs) =
     (case digit_val c of None \<Rightarrow> None | Some d \<Rightarrow> number_from (10 * acc + d) cs)"

definition number :: "string \<Rightarrow> int option" where
  "number s = (if s = [] then None else number_from 0 s)"

definition field :: "nat \<Rightarrow> nat \<Rightarrow> string \<Rightarrow> int option" where
  "field pos len s =
     (if length (take len (drop pos s)) = len then number (take len (drop pos s)) else None)"

definition parse_iso :: "string \<Rightarrow> stamp option" where
  "parse_iso s =
     (case (field 0 4 s, field 5 2 s, field 8 2 s, field 11 2 s, field 14 2 s) of
        (Some y, Some m, Some d, Some hh, Some mi) \<Rightarrow>
          if take 1 (drop 4 s) = ''-'' \<and> take 1 (drop 7 s) = ''-'' \<and>
             take 1 (drop 10 s) \<in> set [''T'', '' ''] \<and> take 1 (drop 13 s) = '':'' \<and>
             1 \<le> m \<and> m \<le> 12 \<and> 1 \<le> d \<and> d \<le> 31 \<and> hh < 24 \<and> mi < 60
          then (let rest = drop 16 s;
                    sec = (if take 1 rest = '':'' then field 1 2 rest else Some 0);
                    zone = (if take 1 rest = '':'' then drop 3 rest else rest)
                in case sec of
                     None \<Rightarrow> None
                   | Some ss \<Rightarrow>
                       if 60 \<le> ss then None
                       else if zone = [] then Some (Naive (seconds y m d hh mi ss))
                       else if zone = ''Z'' then Some (Aware (seconds y m d hh mi ss) 0)
                       else None)
          else None
      | _ \<Rightarrow> None)"

text \<open>
  \<^verbatim>\<open>pd.to_datetime\<close> on a cell: a text is parsed, a number counts nanoseconds since
  1970, a timestamp is kept, a missing value gives \<open>NaT\<close>.
\<close>

fun to_datetime_iso :: "cell \<Rightarrow> stamp option" where
  "to_datetime_iso (Str s) = parse_iso s"
| "to_datetime_iso (Num n) = Some (Naive (n div 1000000000))"
| "to_datetime_iso (Stamp t) = Some t"
| "to_datetime_iso _ = None"

subsection \<open>The records of the specification's examples\<close>

definition rewarded_record :: "string \<Rightarrow> string \<Rightarrow> row" where
  "rewarded_record referral_at transaction_at =
     [(''reward_value'', Num 50000), (''description'', Str ''Berhasil''),
      (''transaction_id'', Str ''TX1''), (''transaction_status'', Str ''paid''),
      (''transaction_type'', Str ''new''), (''referral_at'', Str referral_at),
      (''transaction_at'', Str transaction_at),
      (''reward_granted_at'', Str ''2024-01-03T00:00Z'')]"

definition pending_record :: "cell \<Rightarrow> row" where
  "pending_record reward = [(''description'', Str ''Menunggu''), (''reward_value'', reward)]"

section \<open>Data frames\<close>

text \<open>
  A frame has its column labels and its rows; a row lists the cell of every column under
  its label. \<^verbatim>\<open>pd.DataFrame()\<close> has no column and no row, and \<^verbatim>\<open>df.empty\<close> holds
  when either is missing.
\<close>

record frame =
  columns :: "string list"
  rows :: "row list"

definition DataFrame :: frame where
  "DataFrame = \<lparr>columns = [], rows = []\<rparr>"

definition df_empty :: "frame \<Rightarrow> bool" where
  "df_empty df = (columns df = [] \<or> rows df = [])"

section \<open>The loader: \<^verbatim>\<open>read_csv\<close>\<close>

text \<open>
  The data directory is a map from file names to files, and \<open>reader\<close> stands for
  \<^verbatim>\<open>pd.read_csv\<close>, which may raise. The function returns what it prints and its result.
\<close>

datatype message = Missing string | Reading string

definition read_csv ::
  "(string \<Rightarrow> 'f option) \<Rightarrow> ('f \<Rightarrow> 'e + frame) \<Rightarrow> string \<Rightarrow> message list \<times> ('e + frame)" where
  "read_csv data_dir reader name =
     (case data_dir name of
        None \<Rightarrow> ([Missing name], Inr DataFrame)
      | Some file \<Rightarrow> ([Reading name], reader file))"

section \<open>The normalizer\<close>

subsection \<open>Name capitalization\<close>

text \<open>
  \<open>str_of\<close> stands for \<^verbatim>\<open>str(val)\<close>, with \<open>None\<close> where the conversion raises; on the
  cells of this model it is \<open>py_str\<close> and never raises.
\<close>

definition safe_initcap :: "(cell \<Rightarrow> string option) \<Rightarrow> cell \<Rightarrow> cell" where
  "safe_initcap str_of val =
     (if isnull val then val
      else case str_of val of
             Some s \<Rightarrow> Str (title s)
           | None \<Rightarrow> val)"

definition str_of_cell :: "cell \<Rightarrow> string option" where
  "str_of_cell val = Some (py_str val)"

text \<open>\<^verbatim>\<open>sub in s\<close> on two texts.\<close>

fun py_in :: "string \<Rightarrow> string \<Rightarrow> bool" where
  "py_in sub [] = (sub = [])"
| "py_in sub (c # cs) = (take (length sub) (c # cs) = sub \<or> py_in sub cs)"

definition is_name_column :: "string \<Rightarrow> bool" where
  "is_name_column col = (py_in ''name'' col \<and> \<not> py_in ''homeclub'' col)"

text \<open>\<^verbatim>\<open>df[col] = df[col].apply(f)\<close> on a column of the frame.\<close>

definition apply_column :: "(cell \<Rightarrow> cell) \<Rightarrow> string \<Rightarrow> frame \<Rightarrow> frame" where
  "apply_column f col df =
     df\<lparr>rows := map (map (\<lambda>(k, v). if k = col then (k, f v) else (k, v))) (rows df)\<rparr>"

definition capitalize_names :: "(cell \<Rightarrow> string option) \<Rightarrow> frame \<Rightarrow> frame" where
  "capitalize_names str_of df =
     foldl (\<lambda>d col. if is_name_column col then apply_column (safe_initcap str_of) col d else d)
       df (columns df)"

subsection \<open>Reward coercion\<close>

text \<open>
  \<^verbatim>\<open>pd.to_numeric(\<cdot>, errors='coerce')\<close> on a cell read from CSV; \<open>num_of\<close> stands for the
  parser of numbers of pandas.
\<close>

fun to_numeric :: "(string \<Rightarrow> int option) \<Rightarrow> cell \<Rightarrow> cell" where
  "to_numeric num_of (Num n) = Num n"
| "to_numeric num_of (Str s) = (case num_of s of Some n \<Rightarrow> Num n | None \<Rightarrow> NaN)"
| "to_numeric num_of _ = NaN"

definition coerce_reward_value :: "(string \<Rightarrow> int option) \<Rightarrow> frame \<Rightarrow> frame" where
  "coerce_reward_value num_of df =
     (if ''reward_value'' \<in> set (columns df)
      then apply_column (to_numeric num_of) ''reward_value'' df
      else df)"

subsection \<open>Timestamp localization\<close>

text \<open>
  The zone database of \<^verbatim>\<open>pytz\<close>: the names of \<^verbatim>\<open>pytz.all_timezones\<close>, each with the
  offset from UTC, in seconds, that the zone has at a UTC instant.
\<close>

type_synonym tzdb = "(string \<times> (int \<Rightarrow> int)) list"

fun truthy :: "cell \<Rightarrow> bool" where
  "truthy PyNone = False"
| "truthy (Str s) = (s \<noteq> [])"
| "truthy (Num n) = (n \<noteq> 0)"
| "truthy _ = True"

definition in_all_timezones :: "tzdb \<Rightarrow> cell \<Rightarrow> bool" where
  "in_all_timezones tz c = (case c of Str s \<Rightarrow> s \<in> set (map fst tz) | _ \<Rightarrow> False)"

text \<open>\<^verbatim>\<open>pytz.UTC.localize(dt)\<close> where \<^verbatim>\<open>dt.tzinfo is None\<close>.\<close>

fun assume_utc :: "stamp \<Rightarrow> stamp" where
  "assume_utc (Naive w) = Aware w 0"
| "assume_utc (Aware t off) = Aware t off"

text \<open>
  A \<^verbatim>\<open>datetime\<close> lies between \<^verbatim>\<open>datetime.min\<close>, the first second of year 1, and
  \<^verbatim>\<open>datetime.max\<close>, the last second of year 9999; arithmetic that leaves this range
  raises \<^verbatim>\<open>OverflowError\<close>.
\<close>

definition in_range :: "int \<Rightarrow> bool" where
  "in_range w = (seconds 1 1 1 0 0 0 \<le> w \<and> w \<le> seconds 9999 12 31 23 59 59)"

text \<open>
  \<^verbatim>\<open>dt.astimezone(zone)\<close> on an aware \<open>dt\<close>: the offset of \<open>dt\<close> is subtracted from its
  wall clock, which gives the UTC time, and the offset of the zone at that time is added;
  \<open>None\<close> where one of the two steps leaves the range.
\<close>

definition astimezone :: "(int \<Rightarrow> int) \<Rightarrow> stamp \<Rightarrow> stamp option" where
  "astimezone utcoffset dt =
     (let utc = instant dt
      in if in_range utc \<and> in_range (utc + utcoffset utc)
         then Some (Aware utc (utcoffset utc))
         else None)"

text \<open>\<^verbatim>\<open>dt.replace(tzinfo=None)\<close>: the wall clock of \<open>dt\<close>, without zone.\<close>

fun drop_tzinfo :: "stamp \<Rightarrow> stamp" where
  "drop_tzinfo (Naive w) = Naive w"
| "drop_tzinfo (Aware t off) = Naive (t + off)"

text \<open>
  \<open>parse\<close> stands for \<^verbatim>\<open>dateutil.parser.parse\<close>, with \<open>None\<close> where it raises. Every
  exception inside the \<^verbatim>\<open>try\<close> gives \<open>NaT\<close>: a failed parse, a zone whose data
  \<^verbatim>\<open>pytz.timezone\<close> does not find, and a conversion that leaves the range of
  \<^verbatim>\<open>datetime\<close>.
\<close>

definition utc_to_local :: "(string \<Rightarrow> stamp option) \<Rightarrow> tzdb \<Rightarrow> cell \<Rightarrow> cell \<Rightarrow> cell" where
  "utc_to_local parse tz ts tz_name =
     (if isnull ts then NaT
      else case parse (py_str ts) of
             None \<Rightarrow> NaT
           | Some parsed \<Rightarrow>
               (let dt = assume_utc parsed
                in if truthy tz_name \<and> in_all_timezones tz tz_name
                   then (case map_of tz (py_str tz_name) of
                           None \<Rightarrow> NaT
                         | Some utcoffset \<Rightarrow>
                             (case astimezone utcoffset dt of
                                None \<Rightarrow> NaT
                              | Some local \<Rightarrow> Stamp (drop_tzinfo local)))
                   else Stamp dt))"

text \<open>\<^verbatim>\<open>df[col] = df.apply(f, axis=1)\<close>: an existing column is replaced, a new one appended.\<close>

definition assign_column :: "string \<Rightarrow> (row \<Rightarrow> cell) \<Rightarrow> frame \<Rightarrow> frame" where
  "assign_column col f df =
     (if col \<in> set (columns df)
      then df\<lparr>rows := map (\<lambda>r. map (\<lambda>(k, v). if k = col then (k, f r) else (k, v)) r) (rows df)\<rparr>
      else df\<lparr>columns := columns df @ [col], rows := map (\<lambda>r. r @ [(col, f r)]) (rows df)\<rparr>)"

definition localize_transactions :: "(string \<Rightarrow> stamp option) \<Rightarrow> tzdb \<Rightarrow> frame \<Rightarrow> frame" where
  "localize_transactions parse tz df =
     (if ''transaction_at'' \<in> set (columns df) \<and> ''timezone_transaction'' \<in> set (columns df)
      then assign_column ''transaction_at_local''
             (\<lambda>r. utc_to_local parse tz (row_get r ''transaction_at'')
                    (row_get r ''timezone_transaction'')) df
      else df)"

text \<open>Two zones of the database, for the concrete records: UTC, and Jakarta at UTC+7.\<close>

definition zones :: tzdb where
  "zones = [(''UTC'', \<lambda>t. 0), (''Asia/Jakarta'', \<lambda>t. 25200)]"

subsection \<open>The loaded tables and the three transformations on them\<close>

record tables =
  user_referrals :: frame
  user_logs :: frame
  referral_rewards :: frame
  paid_transactions :: frame
  user_referral_logs :: frame

definition initcap_names :: "(cell \<Rightarrow> string option) \<Rightarrow> tables \<Rightarrow> tables" where
  "initcap_names str_of t =
     t\<lparr>user_referrals := capitalize_names str_of (user_referrals t),
       user_logs := capitalize_names str_of (user_logs t)\<rparr>"

definition reward_to_numeric :: "(string \<Rightarrow> int option) \<Rightarrow> tables \<Rightarrow> tables" where
  "reward_to_numeric num_of t =
     t\<lparr>referral_rewards := coerce_reward_value num_of (referral_rewards t)\<rparr>"

definition timezone_conversion :: "(string \<Rightarrow> stamp option) \<Rightarrow> tzdb \<Rightarrow> tables \<Rightarrow> tables" where
  "timezone_conversion parse tz t =
     t\<lparr>paid_transactions := localize_transactions parse tz (paid_transactions t)\<rparr>"

section \<open>The reconciler\<close>

text \<open>
  The join pipeline of the script. A stage that raises (\<^verbatim>\<open>KeyError\<close> on a missing
  label) ends the run, so every stage returns an error or a frame. Column labels of a
  frame are taken to be distinct, and the two key columns of a merge to hold cells of one
  kind; pandas refuses other merges, which is outside this model.
\<close>

definition bind_err :: "'e + 'a \<Rightarrow> ('a \<Rightarrow> 'e + 'b) \<Rightarrow> 'e + 'b" where
  "bind_err m f = (case m of Inl e \<Rightarrow> Inl e | Inr x \<Rightarrow> f x)"

subsection \<open>\<^verbatim>\<open>rename\<close> and the projection \<^verbatim>\<open>df[[...]]\<close>\<close>

definition new_label :: "(string \<times> string) list \<Rightarrow> string \<Rightarrow> string" where
  "new_label m k = (case map_of m k of Some k' \<Rightarrow> k' | None \<Rightarrow> k)"

definition rename :: "(string \<times> string) list \<Rightarrow> frame \<Rightarrow> frame" where
  "rename m df =
     \<lparr>columns = map (new_label m) (columns df),
      rows = map (map (\<lambda>(k, v). (new_label m k, v))) (rows df)\<rparr>"

definition select_columns :: "string list \<Rightarrow> frame \<Rightarrow> error + frame" where
  "select_columns cs df =
     (if set cs \<subseteq> set (columns df)
      then Inr \<lparr>columns = cs, rows = map (\<lambda>r. map (\<lambda>c. (c, row_get r c)) cs) (rows df)\<rparr>
      else Inl KeyError)"

subsection \<open>\<^verbatim>\<open>sort_values\<close> and \<^verbatim>\<open>groupby(...).last().reset_index()\<close>\<close>

text \<open>
  The order of the cells of a column read from CSV: numbers by value, texts by their
  characters. Missing values take no part: \<^verbatim>\<open>sort_values\<close> puts them last and
  \<^verbatim>\<open>groupby\<close> drops them.
\<close>

fun str_less :: "string \<Rightarrow> string \<Rightarrow> bool" where
  "str_less [] [] = False"
| "str_less [] (y # ys) = True"
| "str_less (x # xs) [] = False"
| "str_less (x # xs) (y # ys) =
     ((of_char x :: nat) < of_char y \<or> (x = y \<and> str_less xs ys))"

fun cell_less :: "cell \<Rightarrow> cell \<Rightarrow> bool" where
  "cell_less (Num a) (Num b) = (a < b)"
| "cell_less (Str a) (Str b) = str_less a b"
| "cell_less _ _ = False"

text \<open>
  A stable insertion sort: a row goes before the first row of the sorted rest whose key
  is not smaller, so rows of equal key keep their order.
\<close>

fun insert_row :: "string \<Rightarrow> row \<Rightarrow> row list \<Rightarrow> row list" where
  "insert_row k r [] = [r]"
| "insert_row k r (x # xs) =
     (if cell_less (row_get x k) (row_get r k) then x # insert_row k r xs else r # x # xs)"

definition sort_rows :: "string \<Rightarrow> row list \<Rightarrow> row list" where
  "sort_rows k rs = foldr (insert_row k) rs []"

definition sort_values :: "string \<Rightarrow> frame \<Rightarrow> error + frame" where
  "sort_values k df =
     (if k \<notin> set (columns df) then Inl KeyError
      else Inr (df\<lparr>rows := sort_rows k [r \<leftarrow> rows df. notnull (row_get r k)] @
                            [r \<leftarrow> rows df. isnull (row_get r k)]\<rparr>))"

fun insert_cell :: "cell \<Rightarrow> cell list \<Rightarrow> cell list" where
  "insert_cell c [] = [c]"
| "insert_cell c (x # xs) = (if cell_less x c then x # insert_cell c xs else c # x # xs)"

definition sort_cells :: "cell list \<Rightarrow> cell list" where
  "sort_cells cs = foldr insert_cell cs []"

text \<open>\<^verbatim>\<open>last()\<close> of a group: the last value of the column that is not missing.\<close>

definition last_notnull :: "cell list \<Rightarrow> cell" where
  "last_notnull cs = (case filter notnull cs of [] \<Rightarrow> NaN | x # xs \<Rightarrow> last (x # xs))"

text \<open>
  One row per key that is not missing, the keys in ascending order, the key column first;
  every other column holds the last value of its group that is not missing.
\<close>

definition groupby_last :: "string \<Rightarrow> frame \<Rightarrow> error + frame" where
  "groupby_last key df =
     (if key \<notin> set (columns df) then Inl KeyError
      else
        (let others = [c \<leftarrow> columns df. c \<noteq> key];
             keys = sort_cells (remdups [row_get r key. r \<leftarrow> rows df, notnull (row_get r key)])
         in Inr \<lparr>columns = key # others,
                 rows = map (\<lambda>kv. (key, kv) #
                          map (\<lambda>c. (c, last_notnull [row_get r c. r \<leftarrow> rows df, row_get r key = kv]))
                            others) keys\<rparr>))"

definition latest_logs :: "frame \<Rightarrow> error + frame" where
  "latest_logs logs = bind_err (sort_values ''created_at'' logs) (groupby_last ''user_referral_id'')"

subsection \<open>\<^verbatim>\<open>merge(how='left', on=key, suffixes=...)\<close>\<close>

text \<open>
  Every left row is kept, in order: once for each right row of the same key, or once with
  missing values in the right columns when there is none. A label other than the key that
  both frames carry takes the suffix of its side.
\<close>

definition suffixed :: "frame \<Rightarrow> frame \<Rightarrow> string \<Rightarrow> string \<Rightarrow> string \<Rightarrow> string" where
  "suffixed left right key suffix c =
     (if c \<noteq> key \<and> c \<in> set (columns left) \<and> c \<in> set (columns right) then c @ suffix else c)"

definition join_row ::
  "frame \<Rightarrow> frame \<Rightarrow> string \<Rightarrow> string \<times> string \<Rightarrow> row \<Rightarrow> row list" where
  "join_row left right key suffixes l =
     (let right_columns = [c \<leftarrow> columns right. c \<noteq> key];
          left_part = map (\<lambda>(k, v). (suffixed left right key (fst suffixes) k, v)) l
      in case [r \<leftarrow> rows right. row_get r key = row_get l key] of
           [] \<Rightarrow> [left_part @ map (\<lambda>c. (suffixed left right key (snd suffixes) c, NaN)) right_columns]
         | m # ms \<Rightarrow>
             map (\<lambda>r. left_part @
                    map (\<lambda>c. (suffixed left right key (snd suffixes) c, row_get r c)) right_columns)
               (m # ms))"

definition merge_left :: "frame \<Rightarrow> frame \<Rightarrow> string \<Rightarrow> string \<times> string \<Rightarrow> error + frame" where
  "merge_left left right key suffixes =
     (if key \<notin> set (columns left) \<or> key \<notin> set (columns right) then Inl KeyError
      else Inr \<lparr>columns = map (suffixed left right key (fst suffixes)) (columns left) @
                           map (suffixed left right key (snd suffixes))
                             [c \<leftarrow> columns right. c \<noteq> key],
                 rows = concat (map (join_row left right key suffixes) (rows left))\<rparr>)"

subsection \<open>The four stages\<close>

definition merge_logs :: "frame \<Rightarrow> frame \<Rightarrow> error + frame" where
  "merge_logs df logs =
     (if \<not> df_empty logs \<and> ''user_referral_id'' \<in> set (columns logs)
      then bind_err (latest_logs logs)
             (\<lambda>latest. merge_left df (rename [(''user_referral_id'', ''referral_id'')] latest)
                ''referral_id'' (''_x'', ''_y''))
      else Inr df)"

definition merge_rewards :: "frame \<Rightarrow> frame \<Rightarrow> error + frame" where
  "merge_rewards df rewards =
     (if \<not> df_empty rewards \<and> ''id'' \<in> set (columns rewards)
      then merge_left df (rename [(''id'', ''referral_reward_id'')] rewards)
             ''referral_reward_id'' (''_x'', ''_y'')
      else Inr df)"

definition merge_transactions :: "frame \<Rightarrow> frame \<Rightarrow> error + frame" where
  "merge_transactions df transactions =
     (if \<not> df_empty transactions \<and> ''transaction_id'' \<in> set (columns transactions)
      then merge_left df transactions ''transaction_id'' ('''', ''_trans'')
      else Inr df)"

definition referrer_labels :: "(string \<times> string) list" where
  "referrer_labels =
     [(''user_id'', ''referrer_id''), (''name'', ''referrer_name''),
      (''phone_number'', ''referrer_phone_number''), (''homeclub'', ''referrer_homeclub'')]"

definition merge_referrer :: "frame \<Rightarrow> frame \<Rightarrow> error + frame" where
  "merge_referrer df users =
     (if \<not> df_empty users \<and> ''user_id'' \<in> set (columns users)
      then bind_err
             (select_columns
                [''referrer_id'', ''referrer_name'', ''referrer_phone_number'', ''referrer_homeclub'']
                (rename referrer_labels users))
             (\<lambda>ref. merge_left df ref ''referrer_id'' (''_x'', ''_y''))
      else Inr df)"

definition reconcile :: "frame \<Rightarrow> frame \<Rightarrow> frame \<Rightarrow> frame \<Rightarrow> frame \<Rightarrow> error + frame" where
  "reconcile referrals logs rewards transactions users =
     bind_err (merge_logs referrals logs) (\<lambda>df1.
     bind_err (merge_rewards df1 rewards) (\<lambda>df2.
     bind_err (merge_transactions df2 transactions) (\<lambda>df3.
       merge_referrer df3 users)))"

section \<open>The script from the loader to the joins\<close>

text \<open>
  The statements of the script run in order; what a step prints is kept when a later step
  raises. \<open>and_then\<close> chains two steps that print and may raise.
\<close>

definition and_then ::
  "message list \<times> ('e + 'a) \<Rightarrow> ('a \<Rightarrow> message list \<times> ('e + 'b)) \<Rightarrow> message list \<times> ('e + 'b)" where
  "and_then m f =
     (case m of
        (ms, Inl e) \<Rightarrow> (ms, Inl e)
      | (ms, Inr x) \<Rightarrow> (case f x of (ms', r) \<Rightarrow> (ms @ ms', r)))"

text \<open>
  The seven files are read in the order of the script; \<^verbatim>\<open>lead_log\<close> and
  \<^verbatim>\<open>user_referral_statuses\<close> are only profiled, which is a side report.
\<close>

definition load_tables ::
  "(string \<Rightarrow> 'f option) \<Rightarrow> ('f \<Rightarrow> 'e + frame) \<Rightarrow> message list \<times> ('e + tables)" where
  "load_tables data_dir reader =
     and_then (read_csv data_dir reader ''lead_log.csv'') (\<lambda>lead_log.
     and_then (read_csv data_dir reader ''paid_transactions.csv'') (\<lambda>transactions.
     and_then (read_csv data_dir reader ''referral_rewards.csv'') (\<lambda>rewards.
     and_then (read_csv data_dir reader ''user_logs.csv'') (\<lambda>users.
     and_then (read_csv data_dir reader ''user_referral_logs.csv'') (\<lambda>logs.
     and_then (read_csv data_dir reader ''user_referral_statuses.csv'') (\<lambda>statuses.
     and_then (read_csv data_dir reader ''user_referrals.csv'') (\<lambda>referrals.
       ([], Inr \<lparr>user_referrals = referrals, user_logs = users, referral_rewards = rewards,
                 paid_transactions = transactions, user_referral_logs = logs\<rparr>))))))))"

definition join_tables :: "tables \<Rightarrow> error + frame" where
  "join_tables t =
     reconcile (user_referrals t) (user_referral_logs t) (referral_rewards t)
       (paid_transactions t) (user_logs t)"

text \<open>
  Loading, cleaning and joining. The result is what was printed, and either the error of
  the reader, or what the joins give: the error they raise or the joined frame.
\<close>

definition load_and_join ::
  "(string \<Rightarrow> 'f option) \<Rightarrow> ('f \<Rightarrow> 'e + frame) \<Rightarrow> (cell \<Rightarrow> string option) \<Rightarrow>
   (string \<Rightarrow> int option) \<Rightarrow> (string \<Rightarrow> stamp option) \<Rightarrow> tzdb \<Rightarrow>
   message list \<times> ('e + (error + frame))" where
  "load_and_join data_dir reader str_of num_of parse tz =
     and_then (load_tables data_dir reader) (\<lambda>t.
       ([], Inr (join_tables
                   (timezone_conversion parse tz
                      (reward_to_numeric num_of (initcap_names str_of t))))))"

subsection \<open>Concrete tables\<close>

text \<open>A data directory that holds the reward file only; a file is the frame read from it.\<close>

definition rewards_only :: "string \<Rightarrow> frame option" where
  "rewards_only =
     [''referral_rewards.csv'' \<mapsto>
        \<lparr>columns = [''id'', ''reward_value''],
         rows = [[(''id'', Num 1), (''reward_value'', Num 50000)]]\<rparr>]"

definition one_transaction :: frame where
  "one_transaction =
     \<lparr>columns = [''transaction_id'', ''transaction_status''],
      rows = [[(''transaction_id'', Str ''TX1''), (''transaction_status'', Str ''PAID'')]]\<rparr>"

text \<open>
  Two log rows of referral 1: the first says ``menunggu'', the second, a day later, has
  an empty description.
\<close>

definition two_logs :: frame where
  "two_logs =
     \<lparr>columns = [''user_referral_id'', ''created_at'', ''description''],
      rows = [[(''user_referral_id'', Num 1), (''created_at'', Str ''2024-01-01T00:00:00Z''),
               (''description'', Str ''menunggu'')],
              [(''user_referral_id'', Num 1), (''created_at'', Str ''2024-01-02T00:00:00Z''),
               (''description'', NaN)]]\<rparr>"

definition one_referral :: frame where
  "one_referral = \<lparr>columns = [''referral_id''], rows = [[(''referral_id'', Num 1)]]\<rparr>"

text \<open>A referral table without the column \<^verbatim>\<open>transaction_id\<close>.\<close>

definition referral_without_transaction :: frame where
  "referral_without_transaction =
     \<lparr>columns = [''referral_id'', ''referrer_id''],
      rows = [[(''referral_id'', Num 1), (''referrer_id'', Num 7)]]\<rparr>"

section \<open>Properties of the validator\<close>

subsection \<open>Texts of values that are not texts\<close>

lemmas case_simps =
  lower_def upper_def lower_char_def upper_char_def is_upper_def is_lower_def char_of_eq_iff

lemma digit_char_caseless: "n < 10 \<Longrightarrow> caseless (digit_char n)"
proof -
  assume "n < 10"
  then have "n \<in> {0, 1, 2, 3, 4, 5, 6, 7, 8, 9}" by auto
  then show ?thesis by (auto simp: caseless_def digit_char_def char_of_eq_iff)
qed

lemma digits_hd: "\<exists>c cs. digits n = c # cs \<and> caseless c"
proof (induction n rule: digits.induct)
  case (1 n)
  show ?case
  proof (cases "n < 10")
    case True
    then show ?thesis using digit_char_caseless[of n] by (subst digits.simps) simp
  next
    case False
    with 1 obtain c cs where "digits (n div 10) = c # cs" "caseless c" by blast
    with False show ?thesis by (subst digits.simps) simp
  qed
qed

lemma show_int_hd: "\<exists>c cs. show_int i = c # cs \<and> caseless c"
proof (cases "i < 0")
  case True
  have "caseless CHR ''-''" by (simp add: caseless_def)
  then show ?thesis using True by (simp add: show_int_def)
next
  case False
  obtain c cs where "digits (nat i) = c # cs" "caseless c" using digits_hd by blast
  then show ?thesis using False by (simp add: show_int_def)
qed

lemma colon_in_show_wall: "CHR '':'' \<in> set (show_wall w)"
  by (cases "civil_from_days (w div 86400)") (simp add: show_wall_def Let_def)

lemma colon_in_show_stamp: "CHR '':'' \<in> set (show_stamp t)"
  by (cases t) (simp_all add: colon_in_show_wall)

text \<open>
  The text of a number or of a timestamp holds a character that no case mapping changes
  and that none of the five words of the validator holds.
\<close>

lemma caseless_maps: "caseless c \<Longrightarrow> lower_char c = c \<and> upper_char c = c"
  by (auto simp: caseless_def case_simps)

lemma caseless_in_py_str:
  assumes "\<forall>s. c \<noteq> Str s" and "\<not> isnull c"
  shows "\<exists>ch \<in> set (py_str c). caseless ch"
proof (cases c)
  case (Num n)
  obtain ch cs where "show_int n = ch # cs" "caseless ch"
    using show_int_hd by blast
  then show ?thesis using Num by auto
next
  case (Stamp t)
  have "caseless CHR '':''" by (simp add: caseless_def)
  then show ?thesis using Stamp colon_in_show_stamp[of t] by auto
qed (use assms in auto)

lemma keyword_not_caseless:
  "w \<in> set [''berhasil'', ''menunggu'', ''tidak berhasil'', ''PAID'', ''NEW''] \<Longrightarrow>
   ch \<in> set w \<Longrightarrow> \<not> caseless ch"
  by (auto simp: caseless_def)

lemma lower_keeps: "ch \<in> set s \<Longrightarrow> lower_char ch = ch \<Longrightarrow> ch \<in> set (lower s)"
  by (force simp: lower_def)

lemma upper_keeps: "ch \<in> set s \<Longrightarrow> upper_char ch = ch \<Longrightarrow> ch \<in> set (upper s)"
  by (force simp: upper_def)

lemma null_str_lower:
  "isnull c \<Longrightarrow> w \<in> set [''berhasil'', ''menunggu'', ''tidak berhasil''] \<Longrightarrow>
   lower (py_str c) \<noteq> w"
  by (cases c) (auto simp: case_simps)

lemma null_str_upper:
  "isnull c \<Longrightarrow> w \<in> set [''PAID'', ''NEW''] \<Longrightarrow> upper (py_str c) \<noteq> w"
  by (cases c) (auto simp: case_simps)

lemma lower_py_str:
  assumes k: "w \<in> set [''berhasil'', ''menunggu'', ''tidak berhasil'']"
  shows "(lower (py_str c) = w) = text_lower_is c w"
proof (cases "\<exists>s. c = Str s")
  case True
  then show ?thesis by (auto simp: text_lower_is_def)
next
  case False
  have "lower (py_str c) \<noteq> w"
  proof (cases "isnull c")
    case True
    then show ?thesis using k null_str_lower by blast
  next
    case n: False
    then obtain ch where ch: "ch \<in> set (py_str c)" "caseless ch"
      using caseless_in_py_str[of c] False by auto
    then have "ch \<in> set (lower (py_str c))"
      using caseless_maps[of ch] lower_keeps by blast
    moreover have "ch \<notin> set w" using keyword_not_caseless[of w ch] k ch(2) by auto
    ultimately show ?thesis by blast
  qed
  moreover have "\<not> text_lower_is c w" using False by (cases c) (auto simp: text_lower_is_def)
  ultimately show ?thesis by simp
qed

lemma upper_py_str:
  assumes k: "w \<in> set [''PAID'', ''NEW'']"
  shows "(upper (py_str c) = w) = text_upper_is c w"
proof (cases "\<exists>s. c = Str s")
  case True
  then show ?thesis by (auto simp: text_upper_is_def)
next
  case False
  have "upper (py_str c) \<noteq> w"
  proof (cases "isnull c")
    case True
    then show ?thesis using k null_str_upper by blast
  next
    case n: False
    then obtain ch where ch: "ch \<in> set (py_str c)" "caseless ch"
      using caseless_in_py_str[of c] False by auto
    then have "ch \<in> set (upper (py_str c))"
      using caseless_maps[of ch] upper_keeps by blast
    moreover have "ch \<notin> set w" using keyword_not_caseless[of w ch] k ch(2) by auto
    ultimately show ?thesis by blast
  qed
  moreover have "\<not> text_upper_is c w" using False by (cases c) (auto simp: text_upper_is_def)
  ultimately show ?thesis by simp
qed

lemma default_lower:
  assumes k: "w \<in> set [''berhasil'', ''menunggu'', ''tidak berhasil'']"
  shows "(lower (py_str (row_get_default r col (Str ''''))) = w) = text_lower_is (row_get r col) w"
proof (cases "map_of r col")
  case None
  have "w \<noteq> []" using k by auto
  then show ?thesis using None
    by (auto simp: row_get_default_def row_get_def text_lower_is_def lower_def)
next
  case (Some v)
  then show ?thesis using lower_py_str[OF k, of v]
    by (simp add: row_get_default_def row_get_def)
qed

lemma default_upper:
  assumes k: "w \<in> set [''PAID'', ''NEW'']"
  shows "(upper (py_str (row_get_default r col (Str ''''))) = w) = text_upper_is (row_get r col) w"
proof (cases "map_of r col")
  case None
  have "w \<noteq> []" using k by auto
  then show ?thesis using None
    by (auto simp: row_get_default_def row_get_def text_upper_is_def upper_def)
next
  case (Some v)
  then show ?thesis using upper_py_str[OF k, of v]
    by (simp add: row_get_default_def row_get_def)
qed

lemma status_berhasil:
  "(lower (py_str (row_get_default r ''description'' (Str ''''))) = ''berhasil'')
   = text_lower_is (row_get r ''description'') ''berhasil''"
  by (rule default_lower) simp

lemma status_menunggu:
  "(lower (py_str (row_get_default r ''description'' (Str ''''))) = ''menunggu'')
   = text_lower_is (row_get r ''description'') ''menunggu''"
  by (rule default_lower) simp

lemma status_tidak_berhasil:
  "(lower (py_str (row_get_default r ''description'' (Str ''''))) = ''tidak berhasil'')
   = text_lower_is (row_get r ''description'') ''tidak berhasil''"
  by (rule default_lower) simp

lemma tx_status_paid:
  "(upper (py_str (row_get_default r ''transaction_status'' (Str ''''))) = ''PAID'')
   = text_upper_is (row_get r ''transaction_status'') ''PAID''"
  by (rule default_upper) simp

lemma tx_type_new:
  "(upper (py_str (row_get_default r ''transaction_type'' (Str ''''))) = ''NEW'')
   = text_upper_is (row_get r ''transaction_type'') ''NEW''"
  by (rule default_upper) simp

subsection \<open>The two conditions of the code against the two rules\<close>

lemma gt_zero_positive: "notnull c \<Longrightarrow> (gt_zero c = Inr True) = positive c"
  by (cases c) (auto simp: positive_def notnull_def)

lemma stamp_ge_True:
  "(stamp_ge t rt = Inr True) = (same_awareness t rt \<and> instant rt \<le> instant t)"
  by (cases t; cases rt) auto

lemma sum_case_True:
  "((case x of Inl e \<Rightarrow> Inl e | Inr g \<Rightarrow> Inr (g \<and> b)) = Inr True) = (x = Inr True \<and> b)"
  by (cases x) auto

lemma valid1_rule_A: "(valid1 td r = Inr True) = rule_A td r"
proof (cases "notnull (row_get r ''reward_value'')")
  case False
  then show ?thesis by (simp add: valid1_def rule_A_def)
next
  case True
  show ?thesis
  proof (cases "gt_zero (row_get r ''reward_value'')")
    case (Inl e)
    then have "\<not> positive (row_get r ''reward_value'')"
      using gt_zero_positive[OF True] by simp
    then show ?thesis using True Inl by (simp add: valid1_def rule_A_def)
  next
    case (Inr pos)
    then have "pos = positive (row_get r ''reward_value'')"
      using gt_zero_positive[OF True] by auto
    then show ?thesis using True Inr
      by (simp add: valid1_def rule_A_def Let_def status_berhasil tx_status_paid tx_type_new
          sum_case_True stamp_ge_True split: option.splits)
  qed
qed

lemma valid2_rule_B: "valid2 r = rule_B r"
  unfolding valid2_def rule_B_def Let_def
  by (auto simp: status_menunggu status_tidak_berhasil)

lemma valid1_of_rule_B: "rule_B r \<Longrightarrow> valid1 td r = Inr False"
  by (simp add: rule_B_def valid1_def notnull_def)

lemma check_valid_True: "(check_valid td r = Inr True) = (rule_A td r \<or> rule_B r)"
proof (cases "valid1 td r")
  case (Inl e)
  then have "\<not> rule_A td r" "\<not> rule_B r"
    using valid1_rule_A[of td r] valid1_of_rule_B[of r td] by auto
  then show ?thesis using Inl by (simp add: check_valid_def)
next
  case (Inr a)
  then have "a = rule_A td r" using valid1_rule_A[of td r] by auto
  then show ?thesis using Inr by (simp add: check_valid_def valid2_rule_B)
qed

lemma rule_A_imp_stated: "rule_A td r \<Longrightarrow> rule_A_stated td r"
  by (auto simp: rule_A_def rule_A_stated_def split: option.splits)

text \<open>
  Where every condition of Rule A as stated holds and the two timestamps are not of one
  kind, the comparison is reached and raises.
\<close>

lemma mixed_awareness_raises:
  assumes "rule_A_stated td r" and "\<not> rule_A td r"
  shows "valid1 td r = Inl TypeError"
proof -
  from assms(1) obtain t rt where
    t: "td (row_get r ''transaction_at'') = Some t" and
    rt: "td (row_get r ''referral_at'') = Some rt"
    by (auto simp: rule_A_stated_def split: option.splits)
  from assms t rt have mixed: "\<not> same_awareness t rt"
    by (auto simp: rule_A_stated_def rule_A_def)
  then have ge: "stamp_ge t rt = Inl TypeError"
    by (cases t; cases rt) auto
  from assms(1) have nn: "notnull (row_get r ''reward_value'')"
    and pos: "positive (row_get r ''reward_value'')"
    and st: "text_lower_is (row_get r ''description'') ''berhasil''"
    and id: "notnull (row_get r ''transaction_id'')"
    and paid: "text_upper_is (row_get r ''transaction_status'') ''PAID''"
    and new: "text_upper_is (row_get r ''transaction_type'') ''NEW''"
    by (simp_all add: rule_A_stated_def)
  from nn pos have gt: "gt_zero (row_get r ''reward_value'') = Inr True"
    using gt_zero_positive by blast
  show ?thesis
    using nn gt st id paid new t rt ge
    by (simp add: valid1_def Let_def status_berhasil tx_status_paid tx_type_new)
qed

text \<open>
  Whenever the validator returns, it returns what the two rules as stated say.
\<close>

lemma check_valid_returned:
  assumes "check_valid td r = Inr b"
  shows "b = (rule_A_stated td r \<or> rule_B r)"
proof (cases b)
  case True
  then show ?thesis
    using assms check_valid_True[of td r] rule_A_imp_stated[of td r] by auto
next
  case False
  then have no: "\<not> rule_A td r" "\<not> rule_B r"
    using assms check_valid_True[of td r] by auto
  have "\<not> rule_A_stated td r"
  proof
    assume "rule_A_stated td r"
    then have "valid1 td r = Inl TypeError"
      using no(1) by (rule mixed_awareness_raises)
    then show False using assms by (simp add: check_valid_def)
  qed
  then show ?thesis using False no(2) by simp
qed

subsection \<open>Rule A\<close>

text \<open>
  The two records of the specification: the rewarded record with the transaction a day
  after the referral is valid, the same record with the transaction a day before it is
  not; the pending record is valid with a null reward and invalid with reward 100.
\<close>

lemma specification_records:
  "check_valid to_datetime_iso
     (rewarded_record ''2024-01-01T00:00Z'' ''2024-01-02T00:00Z'') = Inr True \<and>
   check_valid to_datetime_iso
     (rewarded_record ''2024-01-01T00:00Z'' ''2023-12-31T00:00Z'') = Inr False \<and>
   check_valid to_datetime_iso (pending_record NaN) = Inr True \<and>
   check_valid to_datetime_iso (pending_record (Num 100)) = Inr False"
  by code_simp

text \<open>
  Claim C1 says that the validator returns true under Rule A exactly when the listed
  conditions hold. The code does not, where one of the two timestamps carries a zone and
  the other does not: the referral of 2024-01-01 00:00:00 (no zone) and the transaction
  of 2024-01-03T00:00:00Z satisfy every condition of Rule A, the transaction being two
  days later under any reading of the zone, yet the comparison
  \<^verbatim>\<open>tx_time >= ref_time\<close> raises \<^verbatim>\<open>TypeError\<close> and the validator returns nothing.
\<close>

theorem rule_A_mixed_zone_raises:
  "rule_A_stated to_datetime_iso
     (rewarded_record ''2024-01-01 00:00:00'' ''2024-01-03T00:00:00Z'') \<and>
   check_valid to_datetime_iso
     (rewarded_record ''2024-01-01 00:00:00'' ''2024-01-03T00:00:00Z'') = Inl TypeError"
  by code_simp

subsection \<open>Rule B\<close>

text \<open>
  Claim C4 says that every record satisfying neither rule is invalid. The code does not
  return false on the rewarded record with the referral of 2024-01-02 00:00:00 (no zone)
  and the transaction of 2023-12-30T00:00:00Z: it satisfies neither rule, the
  transaction being days too early, and the comparison of the two timestamps raises
  \<^verbatim>\<open>TypeError\<close>.
\<close>

theorem neither_rule_raises:
  "\<not> rule_A_stated to_datetime_iso
       (rewarded_record ''2024-01-02 00:00:00'' ''2023-12-30T00:00:00Z'') \<and>
   \<not> rule_B (rewarded_record ''2024-01-02 00:00:00'' ''2023-12-30T00:00:00Z'') \<and>
   check_valid to_datetime_iso
     (rewarded_record ''2024-01-02 00:00:00'' ''2023-12-30T00:00:00Z'') = Inl TypeError"
  by code_simp

subsection \<open>The two rules exclude each other\<close>

text \<open>
  Claim C10: no record satisfies both Rule A and Rule B, since Rule A needs a non-null
  reward_value and Rule B a null one; the same holds of the two conditions of the code;
  and the validator that tries Rule B first gives the result of the validator on every
  record, errors included.
\<close>

theorem rules_exclusive_order_free:
  "\<not> (rule_A_stated td r \<and> rule_B r) \<and>
   \<not> (valid1 td r = Inr True \<and> valid2 r) \<and>
   check_valid_B_first td r = check_valid td r"
proof -
  have a: "\<not> (rule_A_stated td r \<and> rule_B r)"
    by (auto simp: rule_A_stated_def rule_B_def notnull_def)
  have b: "\<not> (valid1 td r = Inr True \<and> valid2 r)"
    using valid1_of_rule_B[of r td] valid2_rule_B[of r] by auto
  have c: "check_valid_B_first td r = check_valid td r"
  proof (cases "valid2 r")
    case True
    then have "valid1 td r = Inr False"
      using valid1_of_rule_B valid2_rule_B by blast
    then show ?thesis using True by (simp add: check_valid_B_first_def check_valid_def)
  next
    case False
    then show ?thesis
      by (simp add: check_valid_B_first_def check_valid_def split: sum.splits)
  qed
  from a b c show ?thesis by blast
qed

theorem rules_exclusive_order_free_witness:
  "rule_B (pending_record NaN) \<and>
   \<not> rule_A_stated to_datetime_iso (pending_record NaN) \<and>
   check_valid_B_first to_datetime_iso (pending_record NaN) =
     check_valid to_datetime_iso (pending_record NaN)"
proof -
  have h: "rule_B (pending_record NaN)"
    by code_simp
  show ?thesis
    using h rules_exclusive_order_free[of to_datetime_iso "pending_record NaN"]
    by blast
qed

section \<open>Properties of the loader and of the normalizer\<close>

subsection \<open>The loader\<close>

text \<open>
  For a name whose file is absent, \<open>read_csv\<close> prints the warning and returns the empty
  frame, with no row and no column; for a name whose file exists it returns what the CSV
  reader gives for that file.
\<close>

lemma read_csv_cases:
  "(data_dir name = None \<longrightarrow>
      read_csv data_dir reader name = ([Missing name], Inr \<lparr>columns = [], rows = []\<rparr>) \<and>
      df_empty DataFrame) \<and>
   (data_dir name = Some file \<longrightarrow> read_csv data_dir reader name = ([Reading name], reader file))"
  by (simp add: read_csv_def DataFrame_def df_empty_def)

text \<open>
  Claim C8 says that the absence of a table produces only a warning while the pipeline
  continues. The code does not continue where \<^verbatim>\<open>user_referrals.csv\<close> is absent and a
  joined table is present: with the reward file alone in the data directory, the loader
  prints its warnings and returns the empty frame for the referrals, and the reward join
  then raises \<^verbatim>\<open>KeyError\<close>, since the empty frame has no column
  \<^verbatim>\<open>referral_reward_id\<close>.
\<close>

theorem missing_referrals_raises:
  "read_csv rewards_only (Inr :: frame \<Rightarrow> unit + frame) ''user_referrals.csv'' =
     ([Missing ''user_referrals.csv''], Inr \<lparr>columns = [], rows = []\<rparr>) \<and>
   load_and_join rewards_only (Inr :: frame \<Rightarrow> unit + frame) str_of_cell number parse_iso zones =
     ([Missing ''lead_log.csv'', Missing ''paid_transactions.csv'',
       Reading ''referral_rewards.csv'', Missing ''user_logs.csv'',
       Missing ''user_referral_logs.csv'', Missing ''user_referral_statuses.csv'',
       Missing ''user_referrals.csv''],
      Inr (Inl KeyError))"
  by code_simp

subsection \<open>Name capitalization\<close>

lemma columns_apply_column: "columns (apply_column f col df) = columns df"
  by (simp add: apply_column_def)

lemma capitalize_fold:
  "distinct cs \<Longrightarrow>
   foldl (\<lambda>d col. if p col then apply_column f col d else d) df cs =
     df\<lparr>rows := map (map (\<lambda>(k, v). (k, if k \<in> set cs \<and> p k then f v else v))) (rows df)\<rparr>"
proof (induction cs arbitrary: df)
  case Nil
  have "map (map (\<lambda>(k, v). (k, v))) (rows df) = rows df"
    by (induction "rows df") (auto simp: map_idI)
  then show ?case by (simp add: case_prod_beta)
next
  case (Cons c cs)
  let ?d = "if p c then apply_column f c df else df"
  have step: "foldl (\<lambda>d col. if p col then apply_column f col d else d) df (c # cs) =
      ?d\<lparr>rows := map (map (\<lambda>(k, v). (k, if k \<in> set cs \<and> p k then f v else v))) (rows ?d)\<rparr>"
    using Cons.IH[of ?d] Cons.prems by simp
  have c: "c \<notin> set cs" using Cons.prems by simp
  have "map (map (\<lambda>(k, v). (k, if k \<in> set cs \<and> p k then f v else v))) (rows ?d) =
      map (map (\<lambda>(k, v). (k, if k \<in> set (c # cs) \<and> p k then f v else v))) (rows df)"
    using c by (auto simp: apply_column_def)
  moreover have "columns ?d = columns df" by (simp add: apply_column_def)
  ultimately show ?case using step by (cases "p c") (simp_all add: apply_column_def)
qed

lemma capitalize_names_rows:
  "distinct (columns df) \<Longrightarrow>
   capitalize_names str_of df =
     df\<lparr>rows := map (map (\<lambda>(k, v).
        (k, if k \<in> set (columns df) \<and> is_name_column k then safe_initcap str_of v else v)))
        (rows df)\<rparr>"
  unfolding capitalize_names_def by (rule capitalize_fold)

text \<open>
  Claim C7: on a frame with distinct column labels, the capitalization loop keeps the
  labels and rewrites the cell of column \<open>k\<close> by \<open>safe_initcap\<close> exactly when \<open>k\<close>
  contains ``name'' and not ``homeclub'', leaving every other cell as it is;
  \<open>safe_initcap\<close> keeps a null, title-cases the text of any other value, and passes on a
  value whose conversion fails; ``referrer_name'' is capitalized, ``referrer_homeclub''
  is not; and a number is turned into its text.
\<close>

theorem capitalize_names_exactly_name_columns:
  "(distinct (columns df) \<longrightarrow>
      columns (capitalize_names str_of df) = columns df \<and>
      rows (capitalize_names str_of df) =
        map (map (\<lambda>(k, v).
          (k, if k \<in> set (columns df) \<and> py_in ''name'' k \<and> \<not> py_in ''homeclub'' k
              then safe_initcap str_of v else v))) (rows df)) \<and>
   (isnull v \<longrightarrow> safe_initcap str_of v = v) \<and>
   (\<not> isnull v \<and> str_of v = Some s \<longrightarrow> safe_initcap str_of v = Str (title s)) \<and>
   (\<not> isnull v \<and> str_of v = None \<longrightarrow> safe_initcap str_of v = v) \<and>
   is_name_column ''referrer_name'' \<and> \<not> is_name_column ''referrer_homeclub'' \<and>
   safe_initcap str_of_cell (Str ''john DOE'') = Str ''John Doe'' \<and>
   safe_initcap str_of_cell (Num 42) = Str ''42''"
proof -
  have a: "distinct (columns df) \<longrightarrow>
      columns (capitalize_names str_of df) = columns df \<and>
      rows (capitalize_names str_of df) =
        map (map (\<lambda>(k, v).
          (k, if k \<in> set (columns df) \<and> py_in ''name'' k \<and> \<not> py_in ''homeclub'' k
              then safe_initcap str_of v else v))) (rows df)"
    using capitalize_names_rows[of df str_of] by (simp add: is_name_column_def)
  have b: "isnull v \<longrightarrow> safe_initcap str_of v = v"
    by (simp add: safe_initcap_def)
  have c: "\<not> isnull v \<and> str_of v = Some s \<longrightarrow> safe_initcap str_of v = Str (title s)"
    by (simp add: safe_initcap_def)
  have d: "\<not> isnull v \<and> str_of v = None \<longrightarrow> safe_initcap str_of v = v"
    by (simp add: safe_initcap_def)
  have e: "is_name_column ''referrer_name''" by code_simp
  have f: "\<not> is_name_column ''referrer_homeclub''" by code_simp
  have g: "safe_initcap str_of_cell (Str ''john DOE'') = Str ''John Doe''" by code_simp
  have h: "safe_initcap str_of_cell (Num 42) = Str ''42''" by code_simp
  from a b c d e f g h show ?thesis by blast
qed

theorem capitalize_names_exactly_name_columns_witness:
  "distinct (columns \<lparr>columns = [''referrer_name'', ''referrer_homeclub''],
      rows = [[(''referrer_name'', Str ''john DOE''), (''referrer_homeclub'', Str ''north gym'')]]\<rparr>) \<and>
   rows (capitalize_names str_of_cell \<lparr>columns = [''referrer_name'', ''referrer_homeclub''],
      rows = [[(''referrer_name'', Str ''john DOE''), (''referrer_homeclub'', Str ''north gym'')]]\<rparr>) =
     [[(''referrer_name'', Str ''John Doe''), (''referrer_homeclub'', Str ''north gym'')]] \<and>
   isnull NaN \<and> safe_initcap str_of_cell NaN = NaN \<and>
   \<not> isnull (Str ''ann'') \<and> str_of_cell (Str ''ann'') = Some ''ann'' \<and>
   safe_initcap str_of_cell (Str ''ann'') = Str (title ''ann'') \<and>
   \<not> isnull (Num 7) \<and> (\<lambda>c. None) (Num 7) = (None :: string option) \<and>
   safe_initcap (\<lambda>c. None) (Num 7) = Num 7"
proof -
  let ?df = "\<lparr>columns = [''referrer_name'', ''referrer_homeclub''],
      rows = [[(''referrer_name'', Str ''john DOE''), (''referrer_homeclub'', Str ''north gym'')]]\<rparr>"
  have h1: "distinct (columns ?df)" by simp
  have h2: "isnull NaN" by simp
  have h3: "\<not> isnull (Str ''ann'') \<and> str_of_cell (Str ''ann'') = Some ''ann''"
    by (simp add: str_of_cell_def)
  have h4: "\<not> isnull (Num 7)" by simp
  have e1: "py_in ''name'' ''referrer_name'' \<and> \<not> py_in ''homeclub'' ''referrer_name''"
    by code_simp
  have e2: "py_in ''homeclub'' ''referrer_homeclub''"
    by code_simp
  have e3: "safe_initcap str_of_cell (Str ''john DOE'') = Str ''John Doe''"
    by code_simp
  have r: "rows (capitalize_names str_of_cell ?df) =
      [[(''referrer_name'', Str ''John Doe''), (''referrer_homeclub'', Str ''north gym'')]]"
    using h1 e1 e2 e3
      capitalize_names_exactly_name_columns[of ?df str_of_cell NaN "''x''"]
    by simp
  show ?thesis
    using h1 h2 h3 h4 r
      capitalize_names_exactly_name_columns[of ?df str_of_cell NaN "''x''"]
      capitalize_names_exactly_name_columns[of ?df str_of_cell "Str ''ann''" "''ann''"]
      capitalize_names_exactly_name_columns[of ?df "\<lambda>c. None" "Num 7" "''x''"]
    by simp
qed

subsection \<open>Timestamp localization\<close>

lemma rows_localize_transactions:
  "''transaction_at'' \<in> set (columns df) \<and> ''timezone_transaction'' \<in> set (columns df) \<and>
   ''transaction_at_local'' \<notin> set (columns df) \<longrightarrow>
     rows (localize_transactions parse tz df) =
       map (\<lambda>r. r @ [(''transaction_at_local'',
                       utc_to_local parse tz (row_get r ''transaction_at'')
                         (row_get r ''timezone_transaction''))]) (rows df)"
  by (simp add: localize_transactions_def assign_column_def)

text \<open>
  Claim C6, as stated, fails where the conversion leaves the range of \<^verbatim>\<open>datetime\<close>:
  the text 9999-12-31T23:00:00Z parses, Asia/Jakarta is a zone of the database, and the
  result is \<open>NaT\<close>, not the local time, which would be in year 10000: the addition of
  the offset raises \<^verbatim>\<open>OverflowError\<close>, which the \<^verbatim>\<open>except\<close> turns into \<open>NaT\<close>.
\<close>

theorem utc_to_local_out_of_range:
  "parse_iso (py_str (Str ''9999-12-31T23:00:00Z'')) = Some (Aware (seconds 9999 12 31 23 0 0) 0) \<and>
   in_all_timezones zones (Str ''Asia/Jakarta'') \<and>
   utc_to_local parse_iso zones (Str ''9999-12-31T23:00:00Z'') (Str ''Asia/Jakarta'') = NaT"
  by code_simp

text \<open>
  Claim C6, amended: \<open>utc_to_local\<close> parses the text of the timestamp and reads a parsed
  value without zone as UTC, keeping one with a zone; with a zone name of the database it
  returns the wall clock of the instant in that zone, without zone, provided the UTC
  time and the local time both lie in years 1 to 9999, and \<open>NaT\<close> otherwise; with any
  other zone cell it returns the parsed instant as it is; a missing timestamp or a failed
  parse gives \<open>NaT\<close>; the function is total, so nothing is raised; on a transaction
  table with the two columns, every row gets the result for its own two cells.
  2024-06-01T10:00:00Z in Asia/Jakarta gives 2024-06-01 17:00:00.
\<close>

theorem utc_to_local_cases:
  "(\<not> isnull ts \<and> parse (py_str ts) = Some dt \<and> name \<noteq> [] \<and> map_of tz name = Some utcoffset \<and>
    in_range (instant (assume_utc dt)) \<and>
    in_range (instant (assume_utc dt) + utcoffset (instant (assume_utc dt))) \<longrightarrow>
      utc_to_local parse tz ts (Str name) =
        Stamp (Naive (instant (assume_utc dt) + utcoffset (instant (assume_utc dt))))) \<and>
   (\<not> isnull ts \<and> parse (py_str ts) = Some dt \<and> name \<noteq> [] \<and> map_of tz name = Some utcoffset \<and>
    \<not> (in_range (instant (assume_utc dt)) \<and>
       in_range (instant (assume_utc dt) + utcoffset (instant (assume_utc dt)))) \<longrightarrow>
      utc_to_local parse tz ts (Str name) = NaT) \<and>
   (\<not> isnull ts \<and> parse (py_str ts) = Some dt \<and> \<not> in_all_timezones tz tz_name \<longrightarrow>
      utc_to_local parse tz ts tz_name = Stamp (assume_utc dt)) \<and>
   (isnull ts \<or> parse (py_str ts) = None \<longrightarrow> utc_to_local parse tz ts tz_name = NaT) \<and>
   assume_utc (Naive w) = Aware w 0 \<and>
   assume_utc (Aware t off) = Aware t off \<and>
   (''transaction_at'' \<in> set (columns df) \<and> ''timezone_transaction'' \<in> set (columns df) \<and>
    ''transaction_at_local'' \<notin> set (columns df) \<longrightarrow>
      rows (localize_transactions parse tz df) =
        map (\<lambda>r. r @ [(''transaction_at_local'',
                        utc_to_local parse tz (row_get r ''transaction_at'')
                          (row_get r ''timezone_transaction''))]) (rows df)) \<and>
   utc_to_local parse_iso zones (Str ''2024-06-01T10:00:00Z'') (Str ''Asia/Jakarta'') =
     Stamp (Naive (seconds 2024 6 1 17 0 0)) \<and>
   show_stamp (Naive (seconds 2024 6 1 17 0 0)) = ''2024-06-01 17:00:00''"
proof -
  have known: "in_all_timezones tz (Str name)" if "map_of tz name = Some utcoffset"
  proof -
    from that have "(name, utcoffset) \<in> set tz" by (rule map_of_SomeD)
    then have "name \<in> set (map fst tz)" by force
    then show ?thesis by (simp add: in_all_timezones_def)
  qed
  have a: "\<not> isnull ts \<and> parse (py_str ts) = Some dt \<and> name \<noteq> [] \<and>
      map_of tz name = Some utcoffset \<and>
      in_range (instant (assume_utc dt)) \<and>
      in_range (instant (assume_utc dt) + utcoffset (instant (assume_utc dt))) \<longrightarrow>
      utc_to_local parse tz ts (Str name) =
        Stamp (Naive (instant (assume_utc dt) + utcoffset (instant (assume_utc dt))))"
    using known by (simp add: utc_to_local_def astimezone_def Let_def)
  have a': "\<not> isnull ts \<and> parse (py_str ts) = Some dt \<and> name \<noteq> [] \<and>
      map_of tz name = Some utcoffset \<and>
      \<not> (in_range (instant (assume_utc dt)) \<and>
         in_range (instant (assume_utc dt) + utcoffset (instant (assume_utc dt)))) \<longrightarrow>
      utc_to_local parse tz ts (Str name) = NaT"
    using known by (auto simp: utc_to_local_def astimezone_def Let_def)
  have b: "\<not> isnull ts \<and> parse (py_str ts) = Some dt \<and> \<not> in_all_timezones tz tz_name \<longrightarrow>
      utc_to_local parse tz ts tz_name = Stamp (assume_utc dt)"
    by (simp add: utc_to_local_def Let_def)
  have c: "isnull ts \<or> parse (py_str ts) = None \<longrightarrow> utc_to_local parse tz ts tz_name = NaT"
    by (auto simp: utc_to_local_def)
  have d: "assume_utc (Naive w) = Aware w 0" by simp
  have d': "assume_utc (Aware t off) = Aware t off" by simp
  note l = rows_localize_transactions[of df parse tz]
  have e: "utc_to_local parse_iso zones (Str ''2024-06-01T10:00:00Z'') (Str ''Asia/Jakarta'') =
      Stamp (Naive (seconds 2024 6 1 17 0 0))"
    by code_simp
  have f: "show_stamp (Naive (seconds 2024 6 1 17 0 0)) = ''2024-06-01 17:00:00''"
    by code_simp
  from a a' b c d d' l e f show ?thesis by blast
qed

theorem utc_to_local_cases_witness:
  "\<not> isnull (Str ''2024-06-01T10:00:00'') \<and>
   parse_iso (py_str (Str ''2024-06-01T10:00:00'')) = Some (Naive (seconds 2024 6 1 10 0 0)) \<and>
   ''Asia/Jakarta'' \<noteq> [] \<and> (\<exists>off. map_of zones ''Asia/Jakarta'' = Some off \<and> off 0 = 25200) \<and>
   in_range (seconds 2024 6 1 10 0 0) \<and> in_range (seconds 2024 6 1 10 0 0 + 25200) \<and>
   utc_to_local parse_iso zones (Str ''2024-06-01T10:00:00'') (Str ''Asia/Jakarta'') =
     Stamp (Naive (seconds 2024 6 1 10 0 0 + 25200)) \<and>
   parse_iso (py_str (Str ''9999-12-31T23:00:00Z'')) = Some (Aware (seconds 9999 12 31 23 0 0) 0) \<and>
   \<not> in_range (seconds 9999 12 31 23 0 0 + 25200) \<and>
   utc_to_local parse_iso zones (Str ''9999-12-31T23:00:00Z'') (Str ''Asia/Jakarta'') = NaT \<and>
   \<not> in_all_timezones zones NaN \<and>
   utc_to_local parse_iso zones (Str ''2024-06-01T10:00:00'') NaN =
     Stamp (Aware (seconds 2024 6 1 10 0 0) 0) \<and>
   parse_iso (py_str (Str ''soon'')) = None \<and>
   utc_to_local parse_iso zones (Str ''soon'') (Str ''Asia/Jakarta'') = NaT \<and>
   rows (localize_transactions parse_iso zones
      \<lparr>columns = [''transaction_at'', ''timezone_transaction''],
       rows = [[(''transaction_at'', Str ''soon''), (''timezone_transaction'', NaN)]]\<rparr>) =
     [[(''transaction_at'', Str ''soon''), (''timezone_transaction'', NaN),
       (''transaction_at_local'', NaT)]]"
proof -
  let ?df = "\<lparr>columns = [''transaction_at'', ''timezone_transaction''],
       rows = [[(''transaction_at'', Str ''soon''), (''timezone_transaction'', NaN)]]\<rparr>"
  have h1: "\<not> isnull (Str ''2024-06-01T10:00:00'')" by simp
  have h2: "parse_iso (py_str (Str ''2024-06-01T10:00:00'')) =
      Some (Naive (seconds 2024 6 1 10 0 0))"
    by code_simp
  have h3: "''Asia/Jakarta'' \<noteq> []" by simp
  have h4: "map_of zones ''Asia/Jakarta'' = Some (\<lambda>t. 25200)"
    by (simp add: zones_def)
  have h5: "\<not> in_all_timezones zones NaN" by (simp add: in_all_timezones_def)
  have h6: "parse_iso (py_str (Str ''soon'')) = None" by code_simp
  have h7: "in_range (seconds 2024 6 1 10 0 0)" by code_simp
  have h8: "in_range (seconds 2024 6 1 10 0 0 + 25200)" by code_simp
  have h9: "parse_iso (py_str (Str ''9999-12-31T23:00:00Z'')) =
      Some (Aware (seconds 9999 12 31 23 0 0) 0)"
    by code_simp
  have h10: "\<not> in_range (seconds 9999 12 31 23 0 0 + 25200)" by code_simp
  have h11: "\<not> isnull (Str ''9999-12-31T23:00:00Z'')" by simp
  have h12: "''transaction_at'' \<in> set (columns ?df) \<and>
      ''timezone_transaction'' \<in> set (columns ?df) \<and>
      ''transaction_at_local'' \<notin> set (columns ?df)"
    by simp
  have g1: "row_get [(''transaction_at'', Str ''soon''), (''timezone_transaction'', NaN)]
      ''transaction_at'' = Str ''soon''"
    by (simp add: row_get_def)
  have w1: "utc_to_local parse_iso zones (Str ''2024-06-01T10:00:00'') (Str ''Asia/Jakarta'') =
      Stamp (Naive (seconds 2024 6 1 10 0 0 + 25200))"
    using h1 h2 h3 h4 h7 h8
      utc_to_local_cases[where ts = "Str ''2024-06-01T10:00:00''" and parse = parse_iso
        and dt = "Naive (seconds 2024 6 1 10 0 0)" and name = "''Asia/Jakarta''"
        and tz = zones and utcoffset = "\<lambda>t. 25200"]
    by simp
  have w2: "utc_to_local parse_iso zones (Str ''9999-12-31T23:00:00Z'') (Str ''Asia/Jakarta'') = NaT"
    using h11 h9 h3 h4 h10
      utc_to_local_cases[where ts = "Str ''9999-12-31T23:00:00Z''" and parse = parse_iso
        and dt = "Aware (seconds 9999 12 31 23 0 0) 0" and name = "''Asia/Jakarta''"
        and tz = zones and utcoffset = "\<lambda>t. 25200"]
    by simp
  have w3: "utc_to_local parse_iso zones (Str ''2024-06-01T10:00:00'') NaN =
      Stamp (Aware (seconds 2024 6 1 10 0 0) 0)"
    using h1 h2 h5
      utc_to_local_cases[where ts = "Str ''2024-06-01T10:00:00''" and parse = parse_iso
        and dt = "Naive (seconds 2024 6 1 10 0 0)" and tz = zones and tz_name = NaN]
    by simp
  have w4: "utc_to_local parse_iso zones (Str ''soon'') tzn = NaT" for tzn
    using h6 utc_to_local_cases[where ts = "Str ''soon''" and parse = parse_iso
        and tz = zones and tz_name = tzn]
    by simp
  have w5: "rows (localize_transactions parse_iso zones ?df) =
      [[(''transaction_at'', Str ''soon''), (''timezone_transaction'', NaN),
        (''transaction_at_local'', NaT)]]"
    using h12 g1 w4 utc_to_local_cases[where parse = parse_iso and tz = zones and df = ?df]
    by simp
  from h1 h2 h3 h4 h5 h6 h7 h8 h9 h10 w1 w2 w3 w4 w5 show ?thesis by simp
qed

subsection \<open>The three transformations commute\<close>

text \<open>
  Claim C9: name capitalization rewrites the referral and user tables, reward coercion
  the reward table, and timestamp localization the transaction table, so the six orders
  of the three give the same tables.
\<close>

theorem normalizer_order_free:
  "initcap_names s (reward_to_numeric n (timezone_conversion p tz t)) =
     timezone_conversion p tz (reward_to_numeric n (initcap_names s t)) \<and>
   initcap_names s (timezone_conversion p tz (reward_to_numeric n t)) =
     timezone_conversion p tz (reward_to_numeric n (initcap_names s t)) \<and>
   reward_to_numeric n (initcap_names s (timezone_conversion p tz t)) =
     timezone_conversion p tz (reward_to_numeric n (initcap_names s t)) \<and>
   reward_to_numeric n (timezone_conversion p tz (initcap_names s t)) =
     timezone_conversion p tz (reward_to_numeric n (initcap_names s t)) \<and>
   timezone_conversion p tz (initcap_names s (reward_to_numeric n t)) =
     timezone_conversion p tz (reward_to_numeric n (initcap_names s t)) \<and>
   user_referrals (timezone_conversion p tz (reward_to_numeric n (initcap_names s t))) =
     capitalize_names s (user_referrals t) \<and>
   user_logs (timezone_conversion p tz (reward_to_numeric n (initcap_names s t))) =
     capitalize_names s (user_logs t) \<and>
   referral_rewards (timezone_conversion p tz (reward_to_numeric n (initcap_names s t))) =
     coerce_reward_value n (referral_rewards t) \<and>
   paid_transactions (timezone_conversion p tz (reward_to_numeric n (initcap_names s t))) =
     localize_transactions p tz (paid_transactions t)"
  by (simp add: initcap_names_def reward_to_numeric_def timezone_conversion_def)

section \<open>Properties of the left merge\<close>

lemma merge_left_rows:
  "key \<in> set (columns left) \<Longrightarrow> key \<in> set (columns right) \<Longrightarrow>
   \<exists>out. merge_left left right key suffixes = Inr out \<and>
     rows out = concat (map (join_row left right key suffixes) (rows left))"
  by (simp add: merge_left_def)

lemma snd_relabel: "map snd (map (\<lambda>(k, v). (f k, v)) l) = map snd l"
  by (induction l) auto

lemma join_row_extends:
  "out \<in> set (join_row left right key suffixes l) \<Longrightarrow> take (length l) (map snd out) = map snd l"
  by (cases "[r \<leftarrow> rows right. row_get r key = row_get l key]")
    (auto simp: join_row_def Let_def snd_relabel)

lemma join_row_not_empty: "join_row left right key suffixes l \<noteq> []"
  by (cases "[r \<leftarrow> rows right. row_get r key = row_get l key]")
    (auto simp: join_row_def Let_def)

lemma join_row_unmatched:
  assumes "\<forall>r \<in> set (rows right). row_get r key \<noteq> row_get l key"
  shows "\<exists>out \<in> set (join_row left right key suffixes l).
     map snd out = map snd l @ replicate (length [c \<leftarrow> columns right. c \<noteq> key]) NaN"
proof -
  let ?left_part = "map (\<lambda>(k, v). (suffixed left right key (fst suffixes) k, v)) l"
  let ?nulls = "map (\<lambda>c. (suffixed left right key (snd suffixes) c, NaN))
      [c \<leftarrow> columns right. c \<noteq> key]"
  from assms have "[r \<leftarrow> rows right. row_get r key = row_get l key] = []"
    by (simp add: filter_empty_conv)
  then have mem: "?left_part @ ?nulls \<in> set (join_row left right key suffixes l)"
    by (simp add: join_row_def Let_def)
  have nulls: "map snd (map (\<lambda>c. (g c, NaN)) cs) = replicate (length cs) NaN"
    for g :: "string \<Rightarrow> string" and cs
    by (induction cs) auto
  have "map snd (?left_part @ ?nulls) =
      map snd l @ replicate (length [c \<leftarrow> columns right. c \<noteq> key]) NaN"
    by (simp only: map_append snd_relabel nulls)
  with mem show ?thesis by blast
qed

text \<open>
  A left merge of two frames that carry the key returns, keeps the cells of every left
  row, and fills the right columns of a row without a match with missing values.
\<close>

lemma merge_left_keeps_rows:
  assumes "key \<in> set (columns left)" and "key \<in> set (columns right)" and "l \<in> set (rows left)"
  shows "\<exists>out. merge_left left right key suffixes = Inr out \<and>
     (\<exists>row \<in> set (rows out). take (length l) (map snd row) = map snd l) \<and>
     ((\<forall>r \<in> set (rows right). row_get r key \<noteq> row_get l key) \<longrightarrow>
        (\<exists>row \<in> set (rows out).
           map snd row = map snd l @ replicate (length [c \<leftarrow> columns right. c \<noteq> key]) NaN))"
proof -
  from assms(1,2) obtain out where
    out: "merge_left left right key suffixes = Inr out" and
    rows: "rows out = concat (map (join_row left right key suffixes) (rows left))"
    using merge_left_rows by blast
  from assms(3) have sub: "set (join_row left right key suffixes l) \<subseteq> set (rows out)"
    using rows by auto
  obtain row where row: "row \<in> set (join_row left right key suffixes l)"
    using join_row_not_empty[of left right key suffixes l]
    by (cases "join_row left right key suffixes l") auto
  have a: "\<exists>row \<in> set (rows out). take (length l) (map snd row) = map snd l"
    using row sub join_row_extends by blast
  have b: "(\<forall>r \<in> set (rows right). row_get r key \<noteq> row_get l key) \<longrightarrow>
      (\<exists>row \<in> set (rows out).
         map snd row = map snd l @ replicate (length [c \<leftarrow> columns right. c \<noteq> key]) NaN)"
    using sub join_row_unmatched[of right key l left suffixes] by blast
  from out a b show ?thesis by blast
qed

lemma at_most_one_match:
  "distinct (map f xs) \<Longrightarrow> length [x \<leftarrow> xs. f x = v] \<le> 1"
proof (induction xs)
  case Nil
  then show ?case by simp
next
  case (Cons a xs)
  show ?case
  proof (cases "f a = v")
    case True
    then have "v \<notin> f ` set xs" using Cons.prems by auto
    then have "[x \<leftarrow> xs. f x = v] = []" by (auto simp: filter_empty_conv)
    then show ?thesis using True by simp
  next
    case False
    then show ?thesis using Cons by simp
  qed
qed

lemma join_row_single:
  assumes "length [r \<leftarrow> rows right. row_get r key = row_get l key] \<le> 1"
  shows "length (join_row left right key suffixes l) = 1"
proof (cases "[r \<leftarrow> rows right. row_get r key = row_get l key]")
  case Nil
  then show ?thesis by (simp add: join_row_def Let_def)
next
  case (Cons m ms)
  then have "ms = []" using assms by simp
  then show ?thesis using Cons by (simp add: join_row_def Let_def)
qed

lemma length_concat_singles:
  "(\<forall>x \<in> set xs. length (f x) = 1) \<Longrightarrow> length (concat (map f xs)) = length xs"
  by (induction xs) auto

text \<open>
  A left merge of two frames that carry the key, the keys of the right frame being
  distinct, returns a frame with as many rows as the left frame.
\<close>

lemma merge_left_count:
  assumes "key \<in> set (columns left)" and "key \<in> set (columns right)"
    and "distinct (map (\<lambda>r. row_get r key) (rows right))"
  shows "\<exists>out. merge_left left right key suffixes = Inr out \<and>
     length (rows out) = length (rows left)"
proof -
  from assms(1,2) obtain out where
    out: "merge_left left right key suffixes = Inr out" and
    rows: "rows out = concat (map (join_row left right key suffixes) (rows left))"
    using merge_left_rows by blast
  have "length (join_row left right key suffixes l) = 1" for l
    using at_most_one_match[OF assms(3), of "row_get l key"] by (rule join_row_single)
  then have "length (rows out) = length (rows left)"
    using rows by (simp add: length_concat_singles)
  with out show ?thesis by blast
qed

section \<open>Properties of the reconciler\<close>

subsection \<open>The latest log\<close>

text \<open>
  Claim C3 says that the latest-log stage selects, for each referral, the entire log row
  of maximal created_at. The code does not, where that row has an empty cell:
  \<^verbatim>\<open>last()\<close> takes, column by column, the last value that is not missing. Of two log
  rows of referral 1, the second a day after the first and with an empty description,
  the joined record has the created_at of the second row and the description of the
  first.
\<close>

theorem latest_log_mixes_rows:
  "row_get (rows two_logs ! 1) ''created_at'' = Str ''2024-01-02T00:00:00Z'' \<and>
   row_get (rows two_logs ! 1) ''description'' = NaN \<and>
   merge_logs one_referral two_logs =
     Inr \<lparr>columns = [''referral_id'', ''created_at'', ''description''],
          rows = [[(''referral_id'', Num 1), (''created_at'', Str ''2024-01-02T00:00:00Z''),
                   (''description'', Str ''menunggu'')]]\<rparr>"
  by code_simp

subsection \<open>The number of rows\<close>

text \<open>
  Claim C2 says that the output of the reconciler has one record for each referral row,
  for every referral table. The code gives no output where the referral table is the
  empty frame of an absent file and a joined table is not empty: with one paid
  transaction, the transaction join raises \<^verbatim>\<open>KeyError\<close>, since the empty frame has
  no column \<^verbatim>\<open>transaction_id\<close>; the claim asks for an output without rows.
\<close>

theorem empty_referrals_raise:
  "rows DataFrame = [] \<and>
   \<not> df_empty one_transaction \<and>
   reconcile DataFrame DataFrame DataFrame one_transaction DataFrame = Inl KeyError"
  by code_simp

subsection \<open>Rows without a match\<close>

text \<open>
  Claim C5 says that a referral row whose transaction_id matches no paid transaction is
  still present in the output of the reconciler, with nulls in the transaction columns.
  The code gives no output where the referral table has no column
  \<^verbatim>\<open>transaction_id\<close>, so that the transaction_id of its row is missing, and a paid
  transaction is present: the stage checks the key column of the transaction table
  only, and the join raises \<^verbatim>\<open>KeyError\<close>. Without the transaction table the same row
  is kept.
\<close>

theorem unmatched_referral_raises:
  "row_get (rows referral_without_transaction ! 0) ''transaction_id'' = PyNone \<and>
   reconcile referral_without_transaction DataFrame DataFrame one_transaction DataFrame =
     Inl KeyError \<and>
   reconcile referral_without_transaction DataFrame DataFrame DataFrame DataFrame =
     Inr referral_without_transaction"
  by code_simp

end
